theory Spec2Isabelle
  imports Main "HOL-Library.Sublist"
begin

section \<open>Data model\<close>

text \<open>
  Modelled from the spec: the declaration of \<open>QuestionType\<close> lives in
  \<open>interfaces/question.ts\<close>, which is not among the sources. The spec gives it as a
  closed variant tag with exactly the two values below.
\<close>

datatype QuestionType = multiple_choice_question | short_answer_question

text \<open>
  Modelled from the spec: the declaration of the \<open>Question\<close> interface lives in
  \<open>interfaces/question.ts\<close>, which is not among the sources. The fields are the ones
  of the spec's data model, and the ones \<open>nested.ts\<close> reads. The field \<open>id\<close> is
  named \<open>id_q\<close> and \<open>type\<close> is named \<open>type_q\<close>. Numbers are the integers the spec
  says they are. The type of the \<open>options\<close> field is a parameter: it is
  \<open>string list\<close> where a question is looked at as a value, and an address where
  the identity of the array matters.
\<close>

record 'o Question =
  id_q :: int
  name :: string
  type_q :: QuestionType
  body :: string
  expected :: string
  options :: 'o
  points :: int
  published :: bool

type_synonym question = "string list Question"

text \<open>
  Modelled from the spec: the declaration of the \<open>Answer\<close> interface lives in
  \<open>interfaces/answer.ts\<close>, which is not among the sources.
\<close>

record Answer =
  questionId :: int
  text_a :: string
  submitted :: bool
  correct :: bool

section \<open>The functions of nested.ts on values\<close>

text \<open>
  On values, the copy \<open>{...q, options: [...q.options]}\<close> is the question whose
  \<open>options\<close> field is set to the list of its own options.
\<close>

definition getPublishedQuestions :: "question list \<Rightarrow> question list" where
  "getPublishedQuestions questions =
     map (\<lambda>q. q\<lparr>options := options q\<rparr>) (filter (\<lambda>q. published q) questions)"

text \<open>
  JavaScript's \<open>String.prototype.trim\<close> removes white space and line terminators at
  both ends. Strings are lists of 8-bit characters here, so the white space is the
  part of it below 256: TAB, LF, VT, FF, CR, SP and NBSP.
\<close>

definition is_ws :: "char \<Rightarrow> bool" where
  "is_ws c = (c \<in> set [CHR 0x09, CHR 0x0A, CHR 0x0B, CHR 0x0C, CHR 0x0D, CHR 0x20, CHR 0xA0])"

definition trim :: "string \<Rightarrow> string" where
  "trim s = rev (dropWhile is_ws (rev (dropWhile is_ws s)))"

definition getNonEmptyQuestions :: "question list \<Rightarrow> question list" where
  "getNonEmptyQuestions questions =
     filter (\<lambda>q. trim (body q) \<noteq> [] \<or> length (options q) > 0 \<or> trim (expected q) \<noteq> [])
       questions"

text \<open>\<open>null\<close> is \<open>None\<close>; \<open>Array.prototype.find\<close> is \<open>List.find\<close>.\<close>

definition findQuestion :: "question list \<Rightarrow> int \<Rightarrow> question option" where
  "findQuestion questions i =
     (case List.find (\<lambda>q. id_q q = i) questions of
        None \<Rightarrow> None
      | Some toFind \<Rightarrow> Some (toFind\<lparr>options := options toFind\<rparr>))"

definition removeQuestion :: "question list \<Rightarrow> int \<Rightarrow> question list" where
  "removeQuestion questions i =
     map (\<lambda>q. q\<lparr>options := options q\<rparr>) (filter (\<lambda>q. id_q q \<noteq> i) questions)"

definition getNames :: "question list \<Rightarrow> string list" where
  "getNames questions = map (\<lambda>q. name q) questions"

text \<open>\<open>Array.prototype.reduce\<close> with an initial value is a left fold.\<close>

definition sumPoints :: "question list \<Rightarrow> int" where
  "sumPoints questions = foldl (\<lambda>total q. total + points q) 0 questions"

definition sumPublishedPoints :: "question list \<Rightarrow> int" where
  "sumPublishedPoints questions =
     foldl (\<lambda>total q. if published q then total + points q else total) 0 questions"

subsection \<open>toCSV\<close>

text \<open>
  \<open>Array.prototype.join\<close>: the elements separated by \<open>sep\<close>, the empty string for the
  empty array.
\<close>

fun join :: "string \<Rightarrow> string list \<Rightarrow> string" where
  "join sep [] = []"
| "join sep [x] = x"
| "join sep (x # y # ys) = x @ sep @ join sep (y # ys)"

text \<open>
  \<open>String(n)\<close> for an integer \<open>n\<close> is its decimal numeral, with a minus sign when it
  is negative; \<open>String(b)\<close> for a boolean is \<open>true\<close> or \<open>false\<close>.
\<close>

definition digit_char :: "nat \<Rightarrow> char" where
  "digit_char d = ''0123456789'' ! d"

fun digits :: "nat \<Rightarrow> string" where
  "digits n = (if n < 10 then [digit_char n] else digits (n div 10) @ [digit_char (n mod 10)])"

declare digits.simps [simp del]

definition String_num :: "int \<Rightarrow> string" where
  "String_num i = (if i < 0 then CHR ''-'' # digits (nat (- i)) else digits (nat i))"

definition String_bool :: "bool \<Rightarrow> string" where
  "String_bool b = (if b then ''true'' else ''false'')"

text \<open>
  The rows are arrays of strings; \<open>join\<close> turns each element into a string, which for
  an array is \<open>Array.prototype.toString\<close>: its elements joined by a comma.
\<close>

definition toString_array :: "string list \<Rightarrow> string" where
  "toString_array xs = join '','' xs"

definition toCSV :: "question list \<Rightarrow> string" where
  "toCSV questions =
     (let r1 = join '','' [''id'', ''name'', ''options'', ''points'', ''published''] @ [CHR 0x0A];
          csv = join [CHR 0x0A]
                  (map toString_array
                     (map (\<lambda>q. [String_num (id_q q),
                                name q,
                                String_num (int (length (options q))),
                                String_num (points q),
                                String_bool (published q)]) questions))
      in r1 @ csv)"

definition makeAnswers :: "question list \<Rightarrow> Answer list" where
  "makeAnswers questions =
     map (\<lambda>q. \<lparr>questionId = id_q q, text_a = [], submitted = False, correct = False\<rparr>) questions"

definition publishAll :: "question list \<Rightarrow> question list" where
  "publishAll questions = map (\<lambda>q. q\<lparr>options := options q, published := True\<rparr>) questions"

text \<open>\<open>Array.prototype.every\<close> is \<open>list_all\<close>: true on the empty array.\<close>

definition sameType :: "question list \<Rightarrow> bool" where
  "sameType questions =
     (list_all (\<lambda>q. type_q q = multiple_choice_question) questions \<or>
      list_all (\<lambda>q. type_q q = short_answer_question) questions)"

text \<open>
  Modelled from the spec: \<open>makeBlankQuestion\<close> is defined in \<open>objects.ts\<close>, which is
  not among the sources. The spec: a question with empty body and expected, empty
  options, zero points, not published.
\<close>

definition makeBlankQuestion :: "int \<Rightarrow> string \<Rightarrow> QuestionType \<Rightarrow> question" where
  "makeBlankQuestion i n t =
     \<lparr>id_q = i, name = n, type_q = t, body = [], expected = [], options = [],
      points = 0, published = False\<rparr>"

definition addNewQuestion :: "question list \<Rightarrow> int \<Rightarrow> string \<Rightarrow> QuestionType \<Rightarrow> question list" where
  "addNewQuestion questions i n t =
     (let deepCopy = map (\<lambda>q. q\<lparr>options := options q\<rparr>) questions
      in deepCopy @ [makeBlankQuestion i n t])"

definition renameQuestionById :: "question list \<Rightarrow> int \<Rightarrow> string \<Rightarrow> question list" where
  "renameQuestionById questions targetId newName =
     map (\<lambda>q. if targetId = id_q q then q\<lparr>options := options q, name := newName\<rparr>
               else q\<lparr>options := options q\<rparr>) questions"

definition changeQuestionTypeById :: "question list \<Rightarrow> int \<Rightarrow> QuestionType \<Rightarrow> question list" where
  "changeQuestionTypeById questions targetId newQuestionType =
     map (\<lambda>q. if targetId = id_q q then
                 (let ret = q\<lparr>options := options q, type_q := newQuestionType\<rparr>
                  in if type_q ret = short_answer_question then ret\<lparr>options := []\<rparr> else ret)
               else q\<lparr>options := options q\<rparr>) questions"

subsection \<open>editOption\<close>

text \<open>
  \<open>Array.prototype.splice(start, deleteCount, ...items)\<close> on an array of length
  \<open>len\<close>: a negative \<open>start\<close> counts from the end and stops at 0, any other stops at
  \<open>len\<close>; the number of deleted elements is \<open>deleteCount\<close> kept between 0 and what
  is left after the start. The result here is the array after the call.
\<close>

definition splice_js :: "int \<Rightarrow> int \<Rightarrow> 'a list \<Rightarrow> 'a list \<Rightarrow> 'a list" where
  "splice_js start deleteCount items xs =
     (let len = int (length xs);
          actualStart = (if start < 0 then max (len + start) 0 else min start len);
          actualDeleteCount = min (max deleteCount 0) (len - actualStart)
      in take (nat actualStart) xs @ items @ drop (nat (actualStart + actualDeleteCount)) xs)"

definition editOption :: "question list \<Rightarrow> int \<Rightarrow> int \<Rightarrow> string \<Rightarrow> question list" where
  "editOption questions targetId targetOptionIndex newOption =
     map (\<lambda>q. if targetId = id_q q then
                 (let ret = q\<lparr>options := options q\<rparr>
                  in if targetOptionIndex = - 1
                     then ret\<lparr>options := splice_js (int (length (options ret))) 0 [newOption] (options ret)\<rparr>
                     else ret\<lparr>options := splice_js targetOptionIndex 1 [newOption] (options ret)\<rparr>)
               else q\<lparr>options := options q\<rparr>) questions"

text \<open>\<open>Array.prototype.flatMap\<close> is the concatenation of the mapped arrays.\<close>

definition duplicateQuestionInArray :: "question list \<Rightarrow> int \<Rightarrow> int \<Rightarrow> question list" where
  "duplicateQuestionInArray questions targetId newId =
     concat (map (\<lambda>q. if id_q q = targetId
                       then [q\<lparr>options := options q\<rparr>,
                             q\<lparr>options := options q, id_q := newId, name := ''Copy of '' @ name q\<rparr>]
                       else [q\<lparr>options := options q\<rparr>]) questions)"

section \<open>The functions of nested.ts on a store\<close>

text \<open>
  In the program a \<open>Question\<close> is a reference to an object, and its \<open>options\<close> field
  is a reference to an array of strings. Where a claim is about sharing, the objects
  and the option arrays live in a store, and an address is a position in it. A new
  object or array is put at the end, so it gets an address no older one has. An
  array of questions is a list of addresses of objects.
\<close>

type_synonym addr = nat

record store =
  objs :: "addr Question list"
  arrs :: "string list list"

definition new_array :: "string list \<Rightarrow> store \<Rightarrow> addr \<times> store" where
  "new_array xs s = (length (arrs s), s\<lparr>arrs := arrs s @ [xs]\<rparr>)"

definition new_object :: "addr Question \<Rightarrow> store \<Rightarrow> addr \<times> store" where
  "new_object q s = (length (objs s), s\<lparr>objs := objs s @ [q]\<rparr>)"

text \<open>
  The object literal \<open>{...q, options: [...q.options], over}\<close>: a new array with the
  elements of the options of \<open>q\<close>, and a new object with the fields of \<open>q\<close>, that
  array as its options, and then the fields that \<open>over\<close> sets.
\<close>

definition copy_with :: "(addr Question \<Rightarrow> addr Question) \<Rightarrow> addr \<Rightarrow> store \<Rightarrow> addr \<times> store" where
  "copy_with over r s =
     (let q = objs s ! r;
          (a, s1) = new_array (arrs s ! options q) s
      in new_object (over (q\<lparr>options := a\<rparr>)) s1)"

text \<open>\<open>Array.prototype.map\<close> with a callback that allocates: the store is threaded.\<close>

fun map_st :: "(addr \<Rightarrow> store \<Rightarrow> 'b \<times> store) \<Rightarrow> addr list \<Rightarrow> store \<Rightarrow> 'b list \<times> store" where
  "map_st f [] s = ([], s)"
| "map_st f (r # rs) s =
     (let (x, s1) = f r s;
          (xs, s2) = map_st f rs s1
      in (x # xs, s2))"

definition flatMap_st :: "(addr \<Rightarrow> store \<Rightarrow> 'b list \<times> store) \<Rightarrow> addr list \<Rightarrow> store \<Rightarrow> 'b list \<times> store" where
  "flatMap_st f rs s = (let (xss, s1) = map_st f rs s in (concat xss, s1))"

definition getPublishedQuestions_st :: "addr list \<Rightarrow> store \<Rightarrow> addr list \<times> store" where
  "getPublishedQuestions_st questions s =
     map_st (copy_with (\<lambda>q. q)) (filter (\<lambda>r. published (objs s ! r)) questions) s"

definition getNonEmptyQuestions_st :: "addr list \<Rightarrow> store \<Rightarrow> addr list \<times> store" where
  "getNonEmptyQuestions_st questions s =
     (filter (\<lambda>r. let q = objs s ! r
                  in trim (body q) \<noteq> [] \<or> length (arrs s ! options q) > 0 \<or> trim (expected q) \<noteq> [])
        questions, s)"

definition findQuestion_st :: "addr list \<Rightarrow> int \<Rightarrow> store \<Rightarrow> addr option \<times> store" where
  "findQuestion_st questions i s =
     (case List.find (\<lambda>r. id_q (objs s ! r) = i) questions of
        None \<Rightarrow> (None, s)
      | Some toFind \<Rightarrow> (let (r, s1) = copy_with (\<lambda>q. q) toFind s in (Some r, s1)))"

definition removeQuestion_st :: "addr list \<Rightarrow> int \<Rightarrow> store \<Rightarrow> addr list \<times> store" where
  "removeQuestion_st questions i s =
     map_st (copy_with (\<lambda>q. q)) (filter (\<lambda>r. id_q (objs s ! r) \<noteq> i) questions) s"

definition publishAll_st :: "addr list \<Rightarrow> store \<Rightarrow> addr list \<times> store" where
  "publishAll_st questions s = map_st (copy_with (\<lambda>q. q\<lparr>published := True\<rparr>)) questions s"

text \<open>
  Modelled from the spec: \<open>makeBlankQuestion\<close> is defined in \<open>objects.ts\<close>, which is
  not among the sources. On the store it makes a new empty array and a new object.
\<close>

definition makeBlankQuestion_st :: "int \<Rightarrow> string \<Rightarrow> QuestionType \<Rightarrow> store \<Rightarrow> addr \<times> store" where
  "makeBlankQuestion_st i n t s =
     (let (a, s1) = new_array [] s
      in new_object \<lparr>id_q = i, name = n, type_q = t, body = [], expected = [], options = a,
                     points = 0, published = False\<rparr> s1)"

definition addNewQuestion_st ::
  "addr list \<Rightarrow> int \<Rightarrow> string \<Rightarrow> QuestionType \<Rightarrow> store \<Rightarrow> addr list \<times> store" where
  "addNewQuestion_st questions i n t s =
     (let (deepCopy, s1) = map_st (copy_with (\<lambda>q. q)) questions s;
          (blank, s2) = makeBlankQuestion_st i n t s1
      in (deepCopy @ [blank], s2))"

definition renameQuestionById_st :: "addr list \<Rightarrow> int \<Rightarrow> string \<Rightarrow> store \<Rightarrow> addr list \<times> store" where
  "renameQuestionById_st questions targetId newName s =
     map_st (\<lambda>r s. if targetId = id_q (objs s ! r)
                    then copy_with (\<lambda>q. q\<lparr>name := newName\<rparr>) r s
                    else copy_with (\<lambda>q. q) r s) questions s"

definition changeQuestionTypeById_st ::
  "addr list \<Rightarrow> int \<Rightarrow> QuestionType \<Rightarrow> store \<Rightarrow> addr list \<times> store" where
  "changeQuestionTypeById_st questions targetId newQuestionType s =
     map_st (\<lambda>r s. if targetId = id_q (objs s ! r) then
                      (let (ret, s1) = copy_with (\<lambda>q. q\<lparr>type_q := newQuestionType\<rparr>) r s
                       in if type_q (objs s1 ! ret) = short_answer_question
                          then (let (a, s2) = new_array [] s1
                                in (ret, s2\<lparr>objs := (objs s2)[ret := (objs s2 ! ret)\<lparr>options := a\<rparr>]\<rparr>))
                          else (ret, s1))
                    else copy_with (\<lambda>q. q) r s) questions s"

text \<open>\<open>splice\<close> changes the array it is called on, in place.\<close>

definition splice_st :: "addr \<Rightarrow> int \<Rightarrow> int \<Rightarrow> string list \<Rightarrow> store \<Rightarrow> store" where
  "splice_st a start deleteCount items s =
     s\<lparr>arrs := (arrs s)[a := splice_js start deleteCount items (arrs s ! a)]\<rparr>"

definition editOption_st :: "addr list \<Rightarrow> int \<Rightarrow> int \<Rightarrow> string \<Rightarrow> store \<Rightarrow> addr list \<times> store" where
  "editOption_st questions targetId targetOptionIndex newOption s =
     map_st (\<lambda>r s. if targetId = id_q (objs s ! r) then
                      (let (ret, s1) = copy_with (\<lambda>q. q) r s;
                           a = options (objs s1 ! ret)
                       in if targetOptionIndex = - 1
                          then (ret, splice_st a (int (length (arrs s1 ! a))) 0 [newOption] s1)
                          else (ret, splice_st a targetOptionIndex 1 [newOption] s1))
                    else copy_with (\<lambda>q. q) r s) questions s"

definition duplicateQuestionInArray_st :: "addr list \<Rightarrow> int \<Rightarrow> int \<Rightarrow> store \<Rightarrow> addr list \<times> store" where
  "duplicateQuestionInArray_st questions targetId newId s =
     flatMap_st (\<lambda>r s. if id_q (objs s ! r) = targetId
                        then (let (r1, s1) = copy_with (\<lambda>q. q) r s;
                                  (r2, s2) = copy_with (\<lambda>q. q\<lparr>id_q := newId,
                                                  name := ''Copy of '' @ name (objs s ! r)\<rparr>) r s1
                              in ([r1, r2], s2))
                        else (let (r1, s1) = copy_with (\<lambda>q. q) r s in ([r1], s1))) questions s"

subsection \<open>What a caller sees and does\<close>

text \<open>The question at an address, as a value: its fields and the elements of its options.\<close>

definition read_q :: "store \<Rightarrow> addr \<Rightarrow> question" where
  "read_q s r =
     (let q = objs s ! r
      in \<lparr>id_q = id_q q, name = name q, type_q = type_q q, body = body q, expected = expected q,
          options = arrs s ! options q, points = points q, published = published q\<rparr>)"

text \<open>
  A caller that mutates the options of the question at \<open>r\<close> (\<open>push\<close>, \<open>splice\<close>, an
  assignment to an element) changes the array that the object's field refers to.
\<close>

definition write_options :: "addr \<Rightarrow> string list \<Rightarrow> store \<Rightarrow> store" where
  "write_options r xs s = s\<lparr>arrs := (arrs s)[options (objs s ! r) := xs]\<rparr>"

text \<open>
  The references a program holds are to objects and arrays that exist: the input
  questions are in the store, and so are their option arrays.
\<close>

definition wf_input :: "store \<Rightarrow> addr list \<Rightarrow> bool" where
  "wf_input s questions =
     list_all (\<lambda>r. r < length (objs s) \<and> options (objs s ! r) < length (arrs s)) questions"

subsection \<open>New and old in a store\<close>

text \<open>
  \<open>ext s s'\<close>: everything that is in \<open>s\<close> is in \<open>s'\<close>, at the same address and with
  the same contents. \<open>fresh s s' r\<close>: the object at \<open>r\<close> and its option array are in
  \<open>s'\<close> and were not in \<open>s\<close>.
\<close>

definition ext :: "store \<Rightarrow> store \<Rightarrow> bool" where
  "ext s s' = (prefix (objs s) (objs s') \<and> prefix (arrs s) (arrs s'))"

definition fresh :: "store \<Rightarrow> store \<Rightarrow> addr \<Rightarrow> bool" where
  "fresh s s' r =
     (length (objs s) \<le> r \<and> r < length (objs s') \<and>
      length (arrs s) \<le> options (objs s' ! r) \<and> options (objs s' ! r) < length (arrs s'))"

section \<open>Sample data\<close>

definition q_addition :: question where
  "q_addition =
     \<lparr>id_q = 1, name = ''Addition'', type_q = short_answer_question, body = ''What is 2+2?'',
      expected = ''4'', options = [], points = 1, published = True\<rparr>"

definition q_colors :: question where
  "q_colors =
     \<lparr>id_q = 5, name = ''Colors'', type_q = multiple_choice_question, body = [],
      expected = ''red'', options = [''red'', ''blue'', ''green''], points = 2, published = False\<rparr>"

definition q_blank :: question where
  "q_blank =
     \<lparr>id_q = 7, name = ''Blank'', type_q = multiple_choice_question, body = [],
      expected = [], options = [], points = 0, published = False\<rparr>"

text \<open>A store with one question, whose options are the array at address 0.\<close>

definition st_colors :: store where
  "st_colors =
     \<lparr>objs = [\<lparr>id_q = 5, name = ''Colors'', type_q = multiple_choice_question, body = [],
               expected = [], options = 0, points = 1, published = True\<rparr>],
      arrs = [[''red'', ''blue'']]\<rparr>"

section \<open>Properties of the functions on values\<close>

subsection \<open>getPublishedQuestions\<close>

text \<open>
  C6: for every sequence \<open>qs\<close>, \<open>getPublishedQuestions qs\<close> is a subsequence of \<open>qs\<close>
  in the same relative order, it holds exactly the entries of \<open>qs\<close> that are published,
  every returned element is published, and the result is at most as long as \<open>qs\<close>.
\<close>

theorem getPublishedQuestions_subseq:
  "subseq (getPublishedQuestions qs) qs \<and>
   getPublishedQuestions qs = filter published qs \<and>
   (\<forall>q \<in> set (getPublishedQuestions qs). published q) \<and>
   (\<forall>q \<in> set qs. published q \<longrightarrow> q \<in> set (getPublishedQuestions qs)) \<and>
   length (getPublishedQuestions qs) \<le> length qs"
  by (simp add: getPublishedQuestions_def)

theorem getPublishedQuestions_subseq_witness:
  "published q_addition \<and> \<not> published q_colors \<and>
   getPublishedQuestions [q_colors, q_addition, q_blank] = [q_addition] \<and>
   subseq (getPublishedQuestions [q_colors, q_addition, q_blank]) [q_colors, q_addition, q_blank]"
  using getPublishedQuestions_subseq [of "[q_colors, q_addition, q_blank]"]
  by (simp add: q_addition_def q_colors_def q_blank_def)

subsection \<open>findQuestion\<close>

text \<open>
  C4: when some entry of \<open>qs\<close> has the given id, \<open>findQuestion\<close> returns (a copy of) the
  first such entry; otherwise it returns the absent marker (\<open>null\<close>, here \<open>None\<close>), which
  is no question. The function is total: it raises nothing and returns no default
  question.
\<close>

theorem findQuestion_first:
  "((\<exists>q \<in> set qs. id_q q = i) \<longrightarrow>
      (\<exists>k < length qs. id_q (qs ! k) = i \<and> (\<forall>j < k. id_q (qs ! j) \<noteq> i) \<and>
          findQuestion qs i = Some (qs ! k))) \<and>
   ((\<forall>q \<in> set qs. id_q q \<noteq> i) \<longrightarrow> findQuestion qs i = None)"
proof (intro conjI impI)
  assume "\<exists>q \<in> set qs. id_q q = i"
  then have "List.find (\<lambda>q. id_q q = i) qs \<noteq> None"
    by (auto simp: find_None_iff)
  then obtain x where x: "List.find (\<lambda>q. id_q q = i) qs = Some x"
    by blast
  then obtain k where k: "k < length qs" "id_q (qs ! k) = i" "x = qs ! k"
      "\<forall>j < k. id_q (qs ! j) \<noteq> i"
    unfolding find_Some_iff by blast
  have "findQuestion qs i = Some (qs ! k)"
    using x k(3) by (simp add: findQuestion_def)
  with k show "\<exists>k < length qs. id_q (qs ! k) = i \<and> (\<forall>j < k. id_q (qs ! j) \<noteq> i) \<and>
          findQuestion qs i = Some (qs ! k)"
    by blast
next
  assume "\<forall>q \<in> set qs. id_q q \<noteq> i"
  then have "List.find (\<lambda>q. id_q q = i) qs = None"
    by (simp add: find_None_iff)
  then show "findQuestion qs i = None"
    by (simp add: findQuestion_def)
qed

theorem findQuestion_first_witness:
  "(\<exists>q \<in> set [q_addition, q_colors, q_colors\<lparr>name := ''Second''\<rparr>]. id_q q = 5) \<and>
   findQuestion [q_addition, q_colors, q_colors\<lparr>name := ''Second''\<rparr>] 5 = Some q_colors \<and>
   id_q q_addition \<noteq> 9 \<and> id_q q_colors \<noteq> 9 \<and>
   findQuestion [q_addition, q_colors] 9 = None"
  using findQuestion_first [of "[q_addition, q_colors, q_colors\<lparr>name := ''Second''\<rparr>]" 5]
    findQuestion_first [of "[q_addition, q_colors]" 9]
  by (simp add: q_addition_def q_colors_def findQuestion_def)

subsection \<open>sumPoints and sumPublishedPoints\<close>

lemma foldl_points_mono:
  "(\<forall>q \<in> set qs. 0 \<le> points q) \<Longrightarrow> b \<le> a \<Longrightarrow>
   foldl (\<lambda>total q. if published q then total + points q else total) b qs
     \<le> foldl (\<lambda>total q. total + points q) (a::int) (qs :: question list)"
  by (induction qs arbitrary: a b) auto

text \<open>
  C8: both sums are 0 for the empty sequence, and for every sequence whose entries
  all have non-negative points, \<open>sumPoints qs \<ge> sumPublishedPoints qs\<close>.
\<close>

theorem sumPoints_ge_sumPublishedPoints:
  "sumPoints [] = 0 \<and> sumPublishedPoints [] = 0 \<and>
   ((\<forall>q \<in> set qs. 0 \<le> points q) \<longrightarrow> sumPublishedPoints qs \<le> sumPoints qs)"
  by (simp add: sumPoints_def sumPublishedPoints_def foldl_points_mono)

theorem sumPoints_ge_sumPublishedPoints_witness:
  "0 \<le> points q_addition \<and> 0 \<le> points q_colors \<and> 0 \<le> points q_blank \<and>
   sumPublishedPoints [q_addition, q_colors, q_blank] = 1 \<and>
   sumPoints [q_addition, q_colors, q_blank] = 3 \<and>
   sumPublishedPoints [q_addition, q_colors, q_blank] \<le> sumPoints [q_addition, q_colors, q_blank]"
  using sumPoints_ge_sumPublishedPoints [of "[q_addition, q_colors, q_blank]"]
  by (simp add: q_addition_def q_colors_def q_blank_def sumPoints_def sumPublishedPoints_def)

subsection \<open>toCSV\<close>

lemma join_newline_Cons:
  "join [CHR 0x0A] (x # xs) = x @ concat (map (\<lambda>l. CHR 0x0A # l) xs)"
  by (induction xs arbitrary: x) auto

lemma toString_array_row:
  "toString_array [a, b, c, d, e] = a @ '','' @ b @ '','' @ c @ '','' @ d @ '','' @ e"
  by (simp add: toString_array_def)

lemma toCSV_Cons:
  "toCSV (q # qs) = ''id,name,options,points,published'' @
     concat (map (\<lambda>q. CHR 0x0A #
                   String_num (id_q q) @ '','' @ name q @ '','' @
                   String_num (int (length (options q))) @ '','' @
                   String_num (points q) @ '','' @
                   (if published q then ''true'' else ''false'')) (q # qs))"
proof -
  have hd: "join '','' [''id'', ''name'', ''options'', ''points'', ''published''] =
     ''id,name,options,points,published''"
    by simp
  show ?thesis
    unfolding toCSV_def Let_def hd
    by (simp only: list.map join_newline_Cons toString_array_row map_map o_def String_bool_def)
      simp
qed

text \<open>
  C2: \<open>toCSV qs\<close> is the header line, a newline, and the lines of the questions
  joined by newlines. \<open>toCSV []\<close> is the header line followed by its newline. For a
  non-empty sequence the result is the header line and then, for each question in order, a newline and
  the question's line: id, name, number of options, points and published (as \<open>true\<close>
  or \<open>false\<close>), separated by commas; so the lines are joined by newlines and no
  newline follows the last one. The example of the spec is the last conjunct.
\<close>

theorem toCSV_spec:
  "toCSV qs = ''id,name,options,points,published'' @ [CHR 0x0A] @
     join [CHR 0x0A]
       (map (\<lambda>q. String_num (id_q q) @ '','' @ name q @ '','' @
                  String_num (int (length (options q))) @ '','' @
                  String_num (points q) @ '','' @
                  (if published q then ''true'' else ''false'')) qs) \<and>
   toCSV [] = ''id,name,options,points,published'' @ [CHR 0x0A] \<and>
   (qs \<noteq> [] \<longrightarrow>
      toCSV qs = ''id,name,options,points,published'' @
        concat (map (\<lambda>q. CHR 0x0A #
                      String_num (id_q q) @ '','' @ name q @ '','' @
                      String_num (int (length (options q))) @ '','' @
                      String_num (points q) @ '','' @
                      (if published q then ''true'' else ''false'')) qs) \<and>
      last (toCSV qs) \<noteq> CHR 0x0A) \<and>
   toCSV [\<lparr>id_q = 1, name = ''Addition'', type_q = t, body = b, expected = e, options = [],
           points = 1, published = True\<rparr>] =
     ''id,name,options,points,published'' @ [CHR 0x0A] @ ''1,Addition,0,1,true''"
proof -
  have one: "String_num 1 = ''1''" "String_num 0 = ''0''"
    by (simp_all add: String_num_def digits.simps digit_char_def)
  have main: "qs \<noteq> [] \<longrightarrow>
      toCSV qs = ''id,name,options,points,published'' @
        concat (map (\<lambda>q. CHR 0x0A #
                      String_num (id_q q) @ '','' @ name q @ '','' @
                      String_num (int (length (options q))) @ '','' @
                      String_num (points q) @ '','' @
                      (if published q then ''true'' else ''false'')) qs)"
    by (cases qs) (simp_all only: toCSV_Cons, simp_all)
  have lst: "qs \<noteq> [] \<longrightarrow> last (toCSV qs) \<noteq> CHR 0x0A"
  proof
    assume ne: "qs \<noteq> []"
    then obtain ys y where "qs = ys @ [y]"
      by (metis rev_exhaust)
    with main ne show "last (toCSV qs) \<noteq> CHR 0x0A"
      by auto
  qed
  have ex: "toCSV [\<lparr>id_q = 1, name = ''Addition'', type_q = t, body = b, expected = e,
                    options = [], points = 1, published = True\<rparr>] =
     ''id,name,options,points,published'' @ [CHR 0x0A] @ ''1,Addition,0,1,true''"
    by (simp add: toCSV_Cons one)
  have emp: "toCSV [] = ''id,name,options,points,published'' @ [CHR 0x0A]"
    by (simp add: toCSV_def)
  have joined: "toCSV qs = ''id,name,options,points,published'' @ [CHR 0x0A] @
     join [CHR 0x0A]
       (map (\<lambda>q. String_num (id_q q) @ '','' @ name q @ '','' @
                  String_num (int (length (options q))) @ '','' @
                  String_num (points q) @ '','' @
                  (if published q then ''true'' else ''false'')) qs)"
    by (simp add: toCSV_def toString_array_row String_bool_def o_def)
  show ?thesis
    using joined emp main lst ex by blast
qed

theorem toCSV_spec_witness:
  "[q_addition, q_colors] \<noteq> [] \<and>
   toCSV [q_addition, q_colors] =
     ''id,name,options,points,published'' @ [CHR 0x0A] @ ''1,Addition,0,1,true'' @
     [CHR 0x0A] @ ''5,Colors,3,2,false''"
  using toCSV_spec [of "[q_addition, q_colors]" short_answer_question "[]" "[]"]
  by (simp add: q_addition_def q_colors_def String_num_def digits.simps digit_char_def)

subsection \<open>publishAll\<close>

text \<open>
  C9: \<open>publishAll\<close> is idempotent: \<open>publishAll (publishAll qs)\<close> is \<open>publishAll qs\<close>, the
  same questions in the same order with every field equal; and \<open>publishAll\<close> keeps the
  length.
\<close>

theorem publishAll_idempotent:
  "publishAll (publishAll qs) = publishAll qs \<and> length (publishAll qs) = length qs"
  by (simp add: publishAll_def)

subsection \<open>sameType\<close>

text \<open>
  C7: \<open>sameType qs\<close> is true exactly when there is one of the two variants that is the
  type of every entry; on the empty sequence it is true.
\<close>

theorem sameType_iff:
  "sameType [] = True \<and> (sameType qs \<longleftrightarrow> (\<exists>t. \<forall>q \<in> set qs. type_q q = t))"
proof -
  have "(\<exists>t. \<forall>q \<in> set qs. type_q q = t) \<longleftrightarrow>
        (\<forall>q \<in> set qs. type_q q = multiple_choice_question) \<or>
        (\<forall>q \<in> set qs. type_q q = short_answer_question)"
    (is "?L \<longleftrightarrow> ?R")
  proof
    assume ?L
    then obtain t where t: "\<forall>q \<in> set qs. type_q q = t"
      by blast
    show ?R
      using t by (cases t) auto
  next
    assume ?R
    then show ?L
      by blast
  qed
  then show ?thesis
    by (simp add: sameType_def list_all_iff)
qed

theorem sameType_iff_witness:
  "type_q q_colors = multiple_choice_question \<and> type_q q_blank = multiple_choice_question \<and>
   type_q q_addition = short_answer_question \<and>
   sameType [q_colors, q_blank] \<and>
   \<not> sameType [q_colors, q_addition] \<and>
   \<not> (\<exists>t. \<forall>q \<in> set [q_colors, q_addition]. type_q q = t)"
  using sameType_iff [of "[q_colors, q_blank]"] sameType_iff [of "[q_colors, q_addition]"]
  by (simp add: q_addition_def q_colors_def q_blank_def sameType_def)

subsection \<open>changeQuestionTypeById\<close>

text \<open>
  C3: \<open>changeQuestionTypeById\<close> returns a sequence of the same length and order. Every
  entry whose id is \<open>targetId\<close> has its type set to the new type and, when the new type
  is not \<open>multiple_choice_question\<close>, its options set to the empty sequence, with all
  other fields as they were (and the options as they were when the new type is
  \<open>multiple_choice_question\<close>). Every other entry is unchanged.
\<close>

theorem changeQuestionTypeById_spec:
  "length (changeQuestionTypeById qs targetId newT) = length qs \<and>
   (\<forall>k < length qs.
      (id_q (qs ! k) = targetId \<longrightarrow>
         changeQuestionTypeById qs targetId newT ! k =
           (qs ! k)\<lparr>type_q := newT,
                    options := (if newT \<noteq> multiple_choice_question then []
                                else options (qs ! k))\<rparr>) \<and>
      (id_q (qs ! k) \<noteq> targetId \<longrightarrow> changeQuestionTypeById qs targetId newT ! k = qs ! k))"
  by (cases newT) (auto simp: changeQuestionTypeById_def Let_def)

theorem changeQuestionTypeById_spec_witness:
  "(0::nat) < length [q_colors, q_addition] \<and> id_q ([q_colors, q_addition] ! 0) = 5 \<and>
   changeQuestionTypeById [q_colors, q_addition] 5 short_answer_question ! 0 =
     q_colors\<lparr>type_q := short_answer_question, options := []\<rparr> \<and>
   (1::nat) < length [q_colors, q_addition] \<and> id_q ([q_colors, q_addition] ! 1) \<noteq> 5 \<and>
   changeQuestionTypeById [q_colors, q_addition] 5 short_answer_question ! 1 = q_addition"
  using changeQuestionTypeById_spec [of "[q_colors, q_addition]" 5 short_answer_question]
  by (simp add: q_addition_def q_colors_def changeQuestionTypeById_def)

subsection \<open>duplicateQuestionInArray\<close>

text \<open>
  C5: \<open>duplicateQuestionInArray\<close> passes every entry through in order: the result for
  \<open>xs\<close>, then \<open>q\<close>, then \<open>ys\<close> is the result for \<open>xs\<close>, then \<open>q\<close> unchanged, followed at
  once, when the id of \<open>q\<close> is \<open>targetId\<close>, by a duplicate that differs only in its id
  (\<open>newId\<close>) and its name (\<open>Copy of\<close> and the original name), then the result for \<open>ys\<close>.
  When no entry matches, the output equals the input. The example of the spec is the
  last conjunct.
\<close>

theorem duplicateQuestionInArray_spec:
  "duplicateQuestionInArray [] targetId newId = [] \<and>
   duplicateQuestionInArray (xs @ [q] @ ys) targetId newId =
     duplicateQuestionInArray xs targetId newId @
     (if id_q q = targetId then [q, q\<lparr>id_q := newId, name := ''Copy of '' @ name q\<rparr>]
      else [q]) @
     duplicateQuestionInArray ys targetId newId \<and>
   ((\<forall>q \<in> set qs. id_q q \<noteq> targetId) \<longrightarrow> duplicateQuestionInArray qs targetId newId = qs) \<and>
   duplicateQuestionInArray
     [\<lparr>id_q = 1, name = ''Q'', type_q = t, body = b, expected = e, options = os,
       points = p, published = pub\<rparr>] 1 99 =
     [\<lparr>id_q = 1, name = ''Q'', type_q = t, body = b, expected = e, options = os,
       points = p, published = pub\<rparr>,
      \<lparr>id_q = 99, name = ''Copy of Q'', type_q = t, body = b, expected = e, options = os,
       points = p, published = pub\<rparr>]"
proof -
  have nomatch:
    "(\<forall>q \<in> set qs. id_q q \<noteq> targetId) \<longrightarrow> duplicateQuestionInArray qs targetId newId = qs"
    by (induction qs) (auto simp: duplicateQuestionInArray_def)
  show ?thesis
    using nomatch by (simp add: duplicateQuestionInArray_def)
qed

theorem duplicateQuestionInArray_spec_witness:
  "id_q q_addition \<noteq> 5 \<and> id_q q_blank \<noteq> 5 \<and> id_q q_colors = 5 \<and>
   duplicateQuestionInArray [q_addition, q_blank] 5 99 = [q_addition, q_blank] \<and>
   duplicateQuestionInArray ([q_addition] @ [q_colors] @ [q_blank]) 5 99 =
     [q_addition, q_colors, q_colors\<lparr>id_q := 99, name := ''Copy of Colors''\<rparr>, q_blank]"
  using duplicateQuestionInArray_spec
          [of 5 99 "[q_addition]" q_colors "[q_blank]" "[q_addition, q_blank]"
              short_answer_question "[]" "[]" "[]" 0 False]
  by (simp add: q_addition_def q_colors_def q_blank_def duplicateQuestionInArray_def)

subsection \<open>editOption\<close>

lemma splice_js_append: "splice_js (int (length xs)) 0 [x] xs = xs @ [x]"
  by (simp add: splice_js_def)

lemma splice_js_replace:
  "splice_js k 1 [x] xs =
     (let n = int (length xs) in
      if n \<le> k then xs @ [x]
      else if 0 \<le> k then xs[nat k := x]
      else if n = 0 then [x]
      else xs[nat (max (n + k) 0) := x])"
proof -
  let ?n = "int (length xs)"
  consider (ge) "?n \<le> k" | (mid) "0 \<le> k" "k < ?n" | (neg0) "k < 0" "?n = 0"
    | (neg) "k < 0" "0 < ?n"
    by linarith
  then show ?thesis
  proof cases
    case ge
    then show ?thesis
      by (simp add: splice_js_def Let_def min_def max_def)
  next
    case mid
    then have a: "nat k < length xs"
      by linarith
    have "splice_js k 1 [x] xs = take (nat k) xs @ x # drop (Suc (nat k)) xs"
      using mid by (simp add: splice_js_def Let_def min_def max_def nat_add_distrib)
    then show ?thesis
      using mid a by (simp add: upd_conv_take_nth_drop Let_def)
  next
    case neg0
    then show ?thesis
      by (simp add: splice_js_def Let_def)
  next
    case neg
    let ?a = "max (?n + k) 0"
    have a: "nat ?a < length xs"
      using neg by linarith
    have d: "min 1 (?n - ?a) = 1"
      using neg by linarith
    have "splice_js k 1 [x] xs = take (nat ?a) xs @ x # drop (Suc (nat ?a)) xs"
      using neg d by (simp add: splice_js_def Let_def nat_add_distrib)
    then show ?thesis
      using neg a by (simp add: upd_conv_take_nth_drop Let_def)
  qed
qed

text \<open>
  C10, as the claim states it, fails where the target's options are empty: with a
  negative index other than -1 there is no element at position \<open>max (n + k) 0 = 0\<close> to
  replace, and \<open>splice\<close> inserts the new option, so the options grow from none to one.
  Replacing an element of the empty sequence would leave it empty.
\<close>

theorem editOption_negative_index_empty_options:
  "editOption
     [\<lparr>id_q = 1, name = ''Q'', type_q = multiple_choice_question, body = [], expected = [],
       options = [], points = 0, published = False\<rparr>] 1 (- 2) ''X'' =
     [\<lparr>id_q = 1, name = ''Q'', type_q = multiple_choice_question, body = [], expected = [],
       options = [''X''], points = 0, published = False\<rparr>] \<and>
   editOption
     [\<lparr>id_q = 1, name = ''Q'', type_q = multiple_choice_question, body = [], expected = [],
       options = [], points = 0, published = False\<rparr>] 1 (- 2) ''X'' \<noteq>
     [\<lparr>id_q = 1, name = ''Q'', type_q = multiple_choice_question, body = [], expected = [],
       options = ([] :: string list)[nat (max (int (length ([] :: string list)) + (- 2)) 0) := ''X''],
       points = 0, published = False\<rparr>]"
  by (simp add: editOption_def splice_js_def)

text \<open>
  C10, amended: \<open>editOption\<close> is total over every integer index and keeps the length
  and order of the sequence; entries whose id is not \<open>targetId\<close> are unchanged. For a
  target entry whose options have length \<open>n\<close>: the index -1 and every index \<open>\<ge> n\<close>
  append the new option at the end; an index \<open>0 \<le> k < n\<close> replaces the element at
  \<open>k\<close>; a negative index \<open>k\<close> other than -1 replaces the element at position
  \<open>max (n + k) 0\<close> when \<open>n > 0\<close>, and makes the options the one new option when \<open>n = 0\<close>.
\<close>

theorem editOption_spec:
  "length (editOption qs targetId k newOption) = length qs \<and>
   (\<forall>j < length qs.
     (id_q (qs ! j) \<noteq> targetId \<longrightarrow> editOption qs targetId k newOption ! j = qs ! j) \<and>
     (id_q (qs ! j) = targetId \<longrightarrow>
        editOption qs targetId k newOption ! j =
          (qs ! j)\<lparr>options :=
             (let os = options (qs ! j); n = int (length os) in
              if k = - 1 \<or> n \<le> k then os @ [newOption]
              else if 0 \<le> k then os[nat k := newOption]
              else if n = 0 then [newOption]
              else os[nat (max (n + k) 0) := newOption])\<rparr>))"
proof -
  have "k = - 1 \<or> k \<noteq> - 1"
    by simp
  then show ?thesis
  proof
    assume "k = - 1"
    then show ?thesis
      by (simp add: editOption_def Let_def splice_js_append)
  next
    assume "k \<noteq> - 1"
    then show ?thesis
      by (auto simp add: editOption_def Let_def splice_js_replace)
  qed
qed

theorem editOption_spec_witness:
  "(0::nat) < length [q_colors, q_addition] \<and> id_q ([q_colors, q_addition] ! 0) = 5 \<and>
   id_q ([q_colors, q_addition] ! 1) \<noteq> 5 \<and>
   editOption [q_colors, q_addition] 5 (- 1) ''X'' ! 0 =
     q_colors\<lparr>options := [''red'', ''blue'', ''green'', ''X'']\<rparr> \<and>
   editOption [q_colors, q_addition] 5 7 ''X'' ! 0 =
     q_colors\<lparr>options := [''red'', ''blue'', ''green'', ''X'']\<rparr> \<and>
   editOption [q_colors, q_addition] 5 0 ''X'' ! 0 =
     q_colors\<lparr>options := [''X'', ''blue'', ''green'']\<rparr> \<and>
   editOption [q_colors, q_addition] 5 (- 2) ''X'' ! 0 =
     q_colors\<lparr>options := [''red'', ''X'', ''green'']\<rparr> \<and>
   editOption [q_colors, q_addition] 5 (- 9) ''X'' ! 0 =
     q_colors\<lparr>options := [''X'', ''blue'', ''green'']\<rparr> \<and>
   editOption [q_colors, q_addition] 5 (- 2) ''X'' ! 1 = q_addition \<and>
   editOption [q_blank] 7 (- 2) ''X'' ! 0 = q_blank\<lparr>options := [''X'']\<rparr>"
  using editOption_spec [of "[q_colors, q_addition]" 5 "- 1" "''X''"]
    editOption_spec [of "[q_colors, q_addition]" 5 7 "''X''"]
    editOption_spec [of "[q_colors, q_addition]" 5 0 "''X''"]
    editOption_spec [of "[q_colors, q_addition]" 5 "- 2" "''X''"]
    editOption_spec [of "[q_colors, q_addition]" 5 "- 9" "''X''"]
    editOption_spec [of "[q_blank]" 7 "- 2" "''X''"]
  by (simp add: q_addition_def q_colors_def q_blank_def)

section \<open>Sharing between input and output\<close>

subsection \<open>The copying functions return new objects with new option arrays\<close>

lemma ext_refl: "ext s s"
  by (simp add: ext_def)

lemma ext_trans: "ext s1 s2 \<Longrightarrow> ext s2 s3 \<Longrightarrow> ext s1 s3"
  unfolding ext_def by (meson prefix_order.trans)

lemma prefix_nth: "prefix xs ys \<Longrightarrow> i < length xs \<Longrightarrow> ys ! i = xs ! i"
  by (auto simp: prefix_def nth_append)

lemma fresh_later: "fresh s s1 r \<Longrightarrow> ext s1 s2 \<Longrightarrow> fresh s s2 r"
  unfolding fresh_def ext_def
  by (auto simp: prefix_def nth_append)

lemma fresh_earlier: "ext s0 s \<Longrightarrow> fresh s s' r \<Longrightarrow> fresh s0 s' r"
  unfolding fresh_def ext_def
  by (auto dest!: prefix_length_le)

lemma copy_with_fresh:
  assumes "copy_with over r s = (r', s')" and "\<And>q. options (over q) = options q"
  shows "ext s s' \<and> fresh s s' r'"
  using assms
  by (auto simp: copy_with_def new_array_def new_object_def Let_def ext_def fresh_def)

lemma map_st_fresh:
  assumes step: "\<And>r s x s'. f r s = (x, s') \<Longrightarrow> ext s s' \<and> fresh s s' x"
  shows "map_st f rs s = (xs, s') \<Longrightarrow> ext s s' \<and> (\<forall>x \<in> set xs. fresh s s' x)"
proof (induction rs arbitrary: s xs s')
  case Nil
  then show ?case
    by (simp add: ext_refl)
next
  case (Cons r rs)
  obtain x s1 where f: "f r s = (x, s1)"
    by (cases "f r s")
  obtain ys s2 where m: "map_st f rs s1 = (ys, s2)"
    by (cases "map_st f rs s1")
  from Cons.prems f m have eq: "xs = x # ys" "s' = s2"
    by auto
  from step[OF f] have 1: "ext s s1" "fresh s s1 x"
    by auto
  from Cons.IH[OF m] have 2: "ext s1 s2" "\<forall>y \<in> set ys. fresh s1 s2 y"
    by auto
  show ?case
    unfolding eq using 1 2 by (auto intro: ext_trans fresh_later fresh_earlier)
qed

lemma map_st_fresh_lists:
  assumes step: "\<And>r s x s'. f r s = (x, s') \<Longrightarrow> ext s s' \<and> (\<forall>y \<in> set x. fresh s s' y)"
  shows "map_st f rs s = (xs, s') \<Longrightarrow>
         ext s s' \<and> (\<forall>x \<in> set xs. \<forall>y \<in> set x. fresh s s' y)"
proof (induction rs arbitrary: s xs s')
  case Nil
  then show ?case
    by (simp add: ext_refl)
next
  case (Cons r rs)
  obtain x s1 where f: "f r s = (x, s1)"
    by (cases "f r s")
  obtain ys s2 where m: "map_st f rs s1 = (ys, s2)"
    by (cases "map_st f rs s1")
  from Cons.prems f m have eq: "xs = x # ys" "s' = s2"
    by auto
  from step[OF f] have 1: "ext s s1" "\<forall>y \<in> set x. fresh s s1 y"
    by auto
  from Cons.IH[OF m] have 2: "ext s1 s2" "\<forall>x \<in> set ys. \<forall>y \<in> set x. fresh s1 s2 y"
    by auto
  show ?case
    unfolding eq using 1 2 by (auto intro: ext_trans fresh_later fresh_earlier)
qed

text \<open>
  What freshness gives the caller: a fresh output question is another object than
  every input question, with another option array; the input questions read as
  before the call, and still do after the caller has written to the output's options.
\<close>

lemma fresh_no_alias:
  assumes e: "ext s s'" and f: "fresh s s' r" and w: "wf_input s qs" and q: "q \<in> set qs"
  shows "r \<noteq> q \<and> options (objs s' ! r) \<noteq> options (objs s' ! q) \<and>
         read_q s' q = read_q s q \<and> read_q (write_options r xs s') q = read_q s q"
proof -
  from w q have q1: "q < length (objs s)" and q2: "options (objs s ! q) < length (arrs s)"
    by (auto simp: wf_input_def list_all_iff)
  from e q1 have o: "objs s' ! q = objs s ! q"
    by (simp add: ext_def prefix_nth)
  from e q2 have a: "arrs s' ! options (objs s ! q) = arrs s ! options (objs s ! q)"
    by (simp add: ext_def prefix_nth)
  from f q1 have ne: "r \<noteq> q"
    by (auto simp: fresh_def)
  from f q2 have na: "options (objs s' ! r) \<noteq> options (objs s ! q)"
    by (auto simp: fresh_def)
  show ?thesis
    using o a ne na by (simp add: read_q_def write_options_def Let_def)
qed

lemma getPublishedQuestions_st_fresh:
  "getPublishedQuestions_st qs s = (rs, s') \<Longrightarrow> ext s s' \<and> (\<forall>r \<in> set rs. fresh s s' r)"
  unfolding getPublishedQuestions_st_def
  by (rule map_st_fresh[where f = "copy_with (\<lambda>q. q)"]) (auto dest: copy_with_fresh)

lemma removeQuestion_st_fresh:
  "removeQuestion_st qs i s = (rs, s') \<Longrightarrow> ext s s' \<and> (\<forall>r \<in> set rs. fresh s s' r)"
  unfolding removeQuestion_st_def
  by (rule map_st_fresh[where f = "copy_with (\<lambda>q. q)"]) (auto dest: copy_with_fresh)

lemma publishAll_st_fresh:
  "publishAll_st qs s = (rs, s') \<Longrightarrow> ext s s' \<and> (\<forall>r \<in> set rs. fresh s s' r)"
  unfolding publishAll_st_def
  by (rule map_st_fresh[where f = "copy_with (\<lambda>q. q\<lparr>published := True\<rparr>)"])
    (auto dest: copy_with_fresh)

lemma findQuestion_st_fresh:
  "findQuestion_st qs i s = (Some r, s') \<Longrightarrow> ext s s' \<and> fresh s s' r"
  unfolding findQuestion_st_def
  by (auto split: option.splits prod.splits dest: copy_with_fresh)

lemma makeBlankQuestion_st_fresh:
  "makeBlankQuestion_st i n t s = (r, s') \<Longrightarrow> ext s s' \<and> fresh s s' r"
  by (auto simp: makeBlankQuestion_st_def new_array_def new_object_def ext_def fresh_def)

lemma addNewQuestion_st_fresh:
  assumes "addNewQuestion_st qs i n t s = (rs, s')"
  shows "ext s s' \<and> (\<forall>r \<in> set rs. fresh s s' r)"
proof -
  obtain ds s1 where m: "map_st (copy_with (\<lambda>q. q)) qs s = (ds, s1)"
    by (cases "map_st (copy_with (\<lambda>q. q)) qs s")
  obtain b s2 where k: "makeBlankQuestion_st i n t s1 = (b, s2)"
    by (cases "makeBlankQuestion_st i n t s1")
  from assms m k have eq: "rs = ds @ [b]" "s' = s2"
    by (auto simp: addNewQuestion_st_def)
  have 1: "ext s s1 \<and> (\<forall>r \<in> set ds. fresh s s1 r)"
    by (rule map_st_fresh[OF _ m]) (auto dest: copy_with_fresh)
  have 2: "ext s1 s2 \<and> fresh s1 s2 b"
    by (rule makeBlankQuestion_st_fresh[OF k])
  show ?thesis
    unfolding eq using 1 2 by (auto intro: ext_trans fresh_later fresh_earlier)
qed

lemma renameQuestionById_st_fresh:
  "renameQuestionById_st qs i n s = (rs, s') \<Longrightarrow> ext s s' \<and> (\<forall>r \<in> set rs. fresh s s' r)"
  unfolding renameQuestionById_st_def
  by (erule map_st_fresh[rotated]) (auto split: if_splits dest: copy_with_fresh)

lemma new_options_fresh:
  assumes "ext s s1" "fresh s s1 ret" "new_array [] s1 = (a, s2)"
  shows "ext s (s2\<lparr>objs := (objs s2)[ret := (objs s2 ! ret)\<lparr>options := a\<rparr>]\<rparr>) \<and>
         fresh s (s2\<lparr>objs := (objs s2)[ret := (objs s2 ! ret)\<lparr>options := a\<rparr>]\<rparr>) ret"
  using assms
  by (auto simp: new_array_def ext_def fresh_def prefix_def list_update_append nth_append
      dest!: sym[of "_ @ _"])

lemma changeQuestionTypeById_st_fresh:
  "changeQuestionTypeById_st qs i t s = (rs, s') \<Longrightarrow>
   ext s s' \<and> (\<forall>r \<in> set rs. fresh s s' r)"
  unfolding changeQuestionTypeById_st_def
proof (erule map_st_fresh[rotated], goal_cases)
  case (1 r s x s')
  show ?case
  proof (cases "i = id_q (objs s ! r)")
    case False
    with 1 show ?thesis
      by (auto dest: copy_with_fresh)
  next
    case True
    obtain ret s1 where c: "copy_with (\<lambda>q. q\<lparr>type_q := t\<rparr>) r s = (ret, s1)"
      by (cases "copy_with (\<lambda>q. q\<lparr>type_q := t\<rparr>) r s")
    then have f: "ext s s1" "fresh s s1 ret"
      by (auto dest: copy_with_fresh)
    obtain a s2 where n: "new_array [] s1 = (a, s2)"
      by (cases "new_array [] s1")
    show ?thesis
      using 1 True c n f new_options_fresh[OF f n] by (auto split: if_splits)
  qed
qed

lemma splice_st_fresh:
  assumes "ext s s1" "fresh s s1 ret" "a = options (objs s1 ! ret)"
  shows "ext s (splice_st a st d xs s1) \<and> fresh s (splice_st a st d xs s1) ret"
  using assms
  by (auto simp: splice_st_def ext_def fresh_def prefix_def list_update_append nth_append
      dest!: sym[of "_ @ _"])

lemma editOption_st_fresh:
  "editOption_st qs i k n s = (rs, s') \<Longrightarrow> ext s s' \<and> (\<forall>r \<in> set rs. fresh s s' r)"
  unfolding editOption_st_def
proof (erule map_st_fresh[rotated], goal_cases)
  case (1 r s x s')
  show ?case
  proof (cases "i = id_q (objs s ! r)")
    case False
    with 1 show ?thesis
      by (auto dest: copy_with_fresh)
  next
    case True
    obtain ret s1 where c: "copy_with (\<lambda>q. q) r s = (ret, s1)"
      by (cases "copy_with (\<lambda>q. q) r s")
    then have f: "ext s s1" "fresh s s1 ret"
      by (auto dest: copy_with_fresh)
    show ?thesis
      using 1 True c splice_st_fresh[OF f refl] by (auto simp: Let_def split: if_splits)
  qed
qed

lemma duplicateQuestionInArray_st_fresh:
  assumes "duplicateQuestionInArray_st qs t n s = (rs, s')"
  shows "ext s s' \<and> (\<forall>r \<in> set rs. fresh s s' r)"
proof -
  let ?f = "\<lambda>r s. if id_q (objs s ! r) = t
                   then (let (r1, s1) = copy_with (\<lambda>q. q) r s;
                             (r2, s2) = copy_with (\<lambda>q. q\<lparr>id_q := n,
                                            name := ''Copy of '' @ name (objs s ! r)\<rparr>) r s1
                         in ([r1, r2], s2))
                   else (let (r1, s1) = copy_with (\<lambda>q. q) r s in ([r1], s1))"
  obtain xss where m: "map_st ?f qs s = (xss, s')" and rs: "rs = concat xss"
    using assms
    by (auto simp: duplicateQuestionInArray_st_def flatMap_st_def split: prod.splits)
  have "ext s s' \<and> (\<forall>x \<in> set xss. \<forall>y \<in> set x. fresh s s' y)"
  proof (rule map_st_fresh_lists[OF _ m], goal_cases)
    case (1 r s x s')
    show ?case
    proof (cases "id_q (objs s ! r) = t")
      case False
      with 1 show ?thesis
        by (auto split: prod.splits dest: copy_with_fresh)
    next
      case True
      obtain r1 s1 where c1: "copy_with (\<lambda>q. q) r s = (r1, s1)"
        by (cases "copy_with (\<lambda>q. q) r s")
      obtain r2 s2 where c2:
        "copy_with (\<lambda>q. q\<lparr>id_q := n, name := ''Copy of '' @ name (objs s ! r)\<rparr>) r s1 = (r2, s2)"
        by (cases "copy_with (\<lambda>q. q\<lparr>id_q := n, name := ''Copy of '' @ name (objs s ! r)\<rparr>) r s1")
      from c1 have f1: "ext s s1" "fresh s s1 r1"
        by (auto dest: copy_with_fresh)
      from c2 have f2: "ext s1 s2" "fresh s1 s2 r2"
        by (auto dest: copy_with_fresh)
      from 1 True c1 c2 have eq: "x = [r1, r2]" "s' = s2"
        by auto
      show ?thesis
        unfolding eq using f1 f2 by (auto intro: ext_trans fresh_later fresh_earlier)
    qed
  qed
  then show ?thesis
    using rs by auto
qed

text \<open>
  Every function of \<open>nested.ts\<close> that returns questions, other than
  \<open>getNonEmptyQuestions\<close>, returns fresh objects with fresh option arrays: whatever
  the caller then writes to the options of an output question, every input question
  reads as it did before the call.
\<close>

lemma copying_functions_no_alias:
  assumes w: "wf_input s qs" and q: "q \<in> set qs" and r: "r \<in> set rs"
    and f: "getPublishedQuestions_st qs s = (rs, s') \<or>
            findQuestion_st qs i s = (Some r, s') \<or>
            removeQuestion_st qs i s = (rs, s') \<or>
            publishAll_st qs s = (rs, s') \<or>
            addNewQuestion_st qs i n t s = (rs, s') \<or>
            renameQuestionById_st qs i n s = (rs, s') \<or>
            changeQuestionTypeById_st qs i t s = (rs, s') \<or>
            editOption_st qs i k n s = (rs, s') \<or>
            duplicateQuestionInArray_st qs i j s = (rs, s')"
  shows "r \<noteq> q \<and> options (objs s' ! r) \<noteq> options (objs s' ! q) \<and>
         read_q s' q = read_q s q \<and> read_q (write_options r xs s') q = read_q s q"
proof -
  have "ext s s' \<and> fresh s s' r"
    using f r getPublishedQuestions_st_fresh[of qs s rs s'] findQuestion_st_fresh[of qs i s r s']
      removeQuestion_st_fresh[of qs i s rs s'] publishAll_st_fresh[of qs s rs s']
      addNewQuestion_st_fresh[of qs i n t s rs s'] renameQuestionById_st_fresh[of qs i n s rs s']
      changeQuestionTypeById_st_fresh[of qs i t s rs s'] editOption_st_fresh[of qs i k n s rs s']
      duplicateQuestionInArray_st_fresh[of qs i j s rs s']
    by blast
  then show ?thesis
    using fresh_no_alias[OF _ _ w q] by blast
qed

subsection \<open>On values, the store functions are the value functions\<close>

text \<open>
  Reading the output of the store function gives what the value function gives on the
  input as read: shown for the filter without a copy and for a filter with a copy.
\<close>

lemma read_q_ext:
  "ext s s' \<Longrightarrow> r < length (objs s) \<Longrightarrow> options (objs s ! r) < length (arrs s) \<Longrightarrow>
   read_q s' r = read_q s r"
  by (auto simp: read_q_def ext_def prefix_def nth_append Let_def)

lemma wf_input_ext: "ext s s' \<Longrightarrow> wf_input s rs \<Longrightarrow> wf_input s' rs"
  unfolding wf_input_def list_all_iff ext_def
  by (auto simp: prefix_def nth_append)

lemma copy_with_read:
  assumes "copy_with (\<lambda>q. q) r s = (r', s')" "wf_input s [r]"
  shows "read_q s' r' = read_q s r \<and> wf_input s' [r']"
  using assms
  by (auto simp: copy_with_def new_array_def new_object_def Let_def read_q_def wf_input_def nth_append)

lemma map_st_copy_read:
  "wf_input s rs \<Longrightarrow> map_st (copy_with (\<lambda>q. q)) rs s = (xs, s') \<Longrightarrow>
   map (read_q s') xs = map (read_q s) rs"
proof (induction rs arbitrary: s xs s')
  case Nil
  then show ?case
    by simp
next
  case (Cons r rs)
  obtain x s1 where c: "copy_with (\<lambda>q. q) r s = (x, s1)"
    by (cases "copy_with (\<lambda>q. q) r s")
  obtain ys s2 where m: "map_st (copy_with (\<lambda>q. q)) rs s1 = (ys, s2)"
    by (cases "map_st (copy_with (\<lambda>q. q)) rs s1")
  from Cons.prems c m have eq: "xs = x # ys" "s' = s2"
    by auto
  from Cons.prems(1) have w: "wf_input s [r]" "wf_input s rs"
    by (auto simp: wf_input_def)
  from c have e1: "ext s s1"
    by (auto dest: copy_with_fresh)
  have e2: "ext s1 s2"
    using map_st_fresh[OF _ m] by (auto dest: copy_with_fresh)
  from copy_with_read[OF c w(1)] have x: "read_q s1 x = read_q s r" "wf_input s1 [x]"
    by auto
  have x2: "read_q s2 x = read_q s1 x"
    using x(2) e2 by (auto intro: read_q_ext simp: wf_input_def)
  have "map (read_q s2) ys = map (read_q s1) rs"
    by (rule Cons.IH[OF wf_input_ext[OF e1 w(2)] m])
  also have "\<dots> = map (read_q s) rs"
    using w(2) e1 by (auto intro: read_q_ext simp: wf_input_def list_all_iff)
  finally show ?case
    unfolding eq using x x2 by simp
qed

lemma getPublishedQuestions_st_value:
  assumes "wf_input s qs" "getPublishedQuestions_st qs s = (rs, s')"
  shows "map (read_q s') rs = getPublishedQuestions (map (read_q s) qs)"
proof -
  let ?fs = "filter (\<lambda>r. published (objs s ! r)) qs"
  have w: "wf_input s ?fs"
    using assms(1) by (auto simp: wf_input_def list_all_iff)
  have "map (read_q s') rs = map (read_q s) ?fs"
    using assms(2) unfolding getPublishedQuestions_st_def by (rule map_st_copy_read[OF w])
  also have "\<dots> = getPublishedQuestions (map (read_q s) qs)"
    by (simp add: getPublishedQuestions_def filter_map o_def read_q_def Let_def)
  finally show ?thesis .
qed

subsection \<open>getNonEmptyQuestions returns the input objects\<close>

lemma getNonEmptyQuestions_st_value:
  "getNonEmptyQuestions_st qs s = (rs, s') \<Longrightarrow>
   s' = s \<and> set rs \<subseteq> set qs \<and> map (read_q s) rs = getNonEmptyQuestions (map (read_q s) qs)"
  by (auto simp: getNonEmptyQuestions_st_def getNonEmptyQuestions_def filter_map o_def
      read_q_def Let_def)

text \<open>
  The same input given to \<open>getPublishedQuestions\<close>: the output is the new object at
  address 1, and writing to its options leaves the input question as it was.
\<close>

lemma getPublishedQuestions_st_colors:
  "fst (getPublishedQuestions_st [0] st_colors) = [1] \<and>
   options (read_q (write_options 1 [''red'', ''blue'', ''X'']
                      (snd (getPublishedQuestions_st [0] st_colors))) 0) = [''red'', ''blue'']"
  by (simp add: getPublishedQuestions_st_def st_colors_def copy_with_def new_array_def
      new_object_def read_q_def write_options_def)

text \<open>
  C1: every function that returns questions gives each returned question its own
  options, never shared with an input question, so that mutating the options of an
  output never changes an input. \<open>getNonEmptyQuestions\<close> does not: it returns the
  input objects themselves. On the store \<open>st_colors\<close>, whose one question (address 0)
  has the options red and blue, the output is the address 0 again, and after the
  caller pushes \<open>X\<close> onto the options of that output the input question has the
  options red, blue and \<open>X\<close>.
\<close>

theorem getNonEmptyQuestions_shares_options:
  "wf_input st_colors [0] \<and>
   fst (getNonEmptyQuestions_st [0] st_colors) = [0] \<and>
   options (read_q st_colors 0) = [''red'', ''blue''] \<and>
   options (read_q (write_options 0 (options (read_q st_colors 0) @ [''X''])
                      (snd (getNonEmptyQuestions_st [0] st_colors))) 0) =
     [''red'', ''blue'', ''X'']"
  by (simp add: getNonEmptyQuestions_st_def st_colors_def wf_input_def read_q_def
      write_options_def)

text \<open>
  The question of \<open>st_colors\<close> passes the filter by its options alone (its body and
  its expected answer are blank), and what the caller wrote to the output is read
  back from the input.
\<close>

theorem getNonEmptyQuestions_shares_options_witness:
  "trim (body (objs st_colors ! 0)) = [] \<and>
   trim (expected (objs st_colors ! 0)) = [] \<and>
   0 < length (arrs st_colors ! options (objs st_colors ! 0)) \<and>
   fst (getNonEmptyQuestions_st [0] st_colors) = [0] \<and>
   read_q (write_options 0 (options (read_q st_colors 0) @ [''X''])
             (snd (getNonEmptyQuestions_st [0] st_colors))) 0 \<noteq> read_q st_colors 0"
  using getNonEmptyQuestions_shares_options
  by (simp add: st_colors_def trim_def read_q_def write_options_def getNonEmptyQuestions_st_def)

end
